theory Spec2Isabelle
  imports Main
begin

section \<open>OneDrive client: data model\<close>

text \<open>
  The module \<^verbatim>\<open>src/onedrive.py\<close> is a typed facade over the Microsoft Graph SDK.
  Strings are \<open>string\<close>, raw file content is a byte string, and a timestamp is opaque
  to the module (it is only copied), so it is a string as well.
\<close>

type_synonym bytes = string
type_synonym datetime = string

text \<open>
  Exceptions are values. \<open>ValueError\<close>, \<open>FileNotFoundError\<close> and \<open>RuntimeError\<close> are the
  three the module raises itself, each with its message. \<open>TransportError\<close> stands for
  anything raised inside the Graph SDK and \<open>OSError\<close> for anything raised by the local
  file system: the module catches neither, so both propagate unchanged.
\<close>

datatype error =
    ValueError string
  | FileNotFoundError string
  | RuntimeError string
  | TransportError string
  | OSError string

subsection \<open>Records of the Graph SDK that the module reads\<close>

text \<open>
  Only the attributes the module touches are modelled. Every attribute of an SDK model
  is optional (\<open>None\<close> when the service did not send it); \<open>additional_data\<close> is a
  dictionary that is always present, with string values here.
\<close>

datatype File = File (file_mime_type: "string option")

datatype Folder = Folder

record DriveItem =
  di_id :: "string option"
  di_name :: "string option"
  di_size :: "int option"
  di_file :: "File option"
  di_folder :: "Folder option"
  di_created_date_time :: "datetime option"
  di_last_modified_date_time :: "datetime option"
  di_web_url :: "string option"
  di_additional_data :: "string \<rightharpoonup> string"

record DriveItemCollectionResponse =
  cr_value :: "DriveItem list option"

record Site =
  site_id :: "string option"

record Drive =
  drive_id :: "string option"

text \<open>
  \<open>DriveItem(name=..., folder=..., additional_data=...)\<close>: a keyword the constructor
  call leaves out is \<open>None\<close>, and \<open>additional_data\<close> defaults to the empty dictionary.
\<close>

definition empty_DriveItem :: DriveItem where
  "empty_DriveItem =
     \<lparr>di_id = None, di_name = None, di_size = None, di_file = None, di_folder = None,
      di_created_date_time = None, di_last_modified_date_time = None, di_web_url = None,
      di_additional_data = Map.empty\<rparr>"

subsection \<open>The module's own value type\<close>

text \<open>
  The frozen dataclass \<open>DriveItemInfo\<close>. The fields \<open>id\<close>, \<open>name\<close>, \<open>size\<close> and \<open>web_url\<close>
  carry the suffix \<open>_info\<close> because the plain names are taken.
\<close>

record DriveItemInfo =
  id_info :: string
  name_info :: string
  size_info :: "int option"
  mime_type :: "string option"
  is_folder :: bool
  created_at :: "datetime option"
  modified_at :: "datetime option"
  web_url_info :: "string option"
  download_url :: "string option"

text \<open>The property \<open>is_file\<close>: \<^verbatim>\<open>return not self.is_folder\<close>.\<close>

definition is_file :: "DriveItemInfo \<Rightarrow> bool" where
  "is_file self = (\<not> is_folder self)"

section \<open>Response normaliser\<close>

text \<open>
  Python's \<^verbatim>\<open>x or d\<close> on an optional string: \<open>d\<close> when \<open>x\<close> is \<open>None\<close> or the empty
  string (both are falsy), \<open>x\<close> otherwise.
\<close>

definition or_str :: "string option \<Rightarrow> string \<Rightarrow> string" where
  "or_str x d = (case x of None \<Rightarrow> d | Some v \<Rightarrow> if v = [] then d else v)"

text \<open>
  \<^verbatim>\<open>_to_drive_item_info\<close> (the leading underscore is dropped). \<^verbatim>\<open>item.file.mime_type if
  item.file else None\<close> tests the sub-object for presence; \<^verbatim>\<open>additional_data.get(k)\<close> is a
  dictionary lookup that gives \<open>None\<close> for a missing key.
\<close>

definition to_drive_item_info :: "DriveItem \<Rightarrow> DriveItemInfo" where
  "to_drive_item_info item =
     \<lparr>id_info = or_str (di_id item) [],
      name_info = or_str (di_name item) [],
      size_info = di_size item,
      mime_type = (case di_file item of None \<Rightarrow> None | Some f \<Rightarrow> file_mime_type f),
      is_folder = (di_folder item \<noteq> None),
      created_at = di_created_date_time item,
      modified_at = di_last_modified_date_time item,
      web_url_info = di_web_url item,
      download_url = di_additional_data item ''@microsoft.graph.downloadUrl''\<rparr>"

section \<open>The transport: the Graph SDK client\<close>

text \<open>
  The module never talks to the network itself: every operation awaits one or two calls on
  a \<open>GraphServiceClient\<close>, addressed by a chain of request builders such as
  \<^verbatim>\<open>drives.by_drive_id(d).items.by_drive_item_id(k).children.get()\<close>. The client is a
  parameter of the model, one field per endpoint the module uses, each taking the
  addressing strings (and the body, for a write), reading and changing the remote state
  \<open>'s\<close>, and giving either an exception or the optional response. The content \<open>PUT\<close> is
  called with the bytes alone (\<^verbatim>\<open>content.put(content)\<close>, no request configuration), so
  its field has no further argument.
\<close>

record 's graph_client =
  sites_get :: "string \<Rightarrow> 's \<Rightarrow> (error + Site option) \<times> 's"
  sites_drive_get :: "string \<Rightarrow> 's \<Rightarrow> (error + Drive option) \<times> 's"
  items_get :: "string \<Rightarrow> string \<Rightarrow> 's \<Rightarrow> (error + DriveItem option) \<times> 's"
  children_get ::
    "string \<Rightarrow> string \<Rightarrow> 's \<Rightarrow> (error + DriveItemCollectionResponse option) \<times> 's"
  content_get :: "string \<Rightarrow> string \<Rightarrow> 's \<Rightarrow> (error + bytes option) \<times> 's"
  content_put :: "string \<Rightarrow> string \<Rightarrow> bytes \<Rightarrow> 's \<Rightarrow> (error + DriveItem option) \<times> 's"
  children_post ::
    "string \<Rightarrow> string \<Rightarrow> DriveItem \<Rightarrow> 's \<Rightarrow> (error + DriveItem option) \<times> 's"

section \<open>The facade\<close>

text \<open>The class \<open>OneDriveClient\<close> has one attribute, \<open>_client\<close>.\<close>

record 's OneDriveClient =
  client :: "'s graph_client"

definition DEFAULT_SCOPES :: "string list" where
  "DEFAULT_SCOPES = [''https://graph.microsoft.com/.default'']"

text \<open>
  \<^verbatim>\<open>__init__\<close>. The SDK's constructor \<open>GraphServiceClient(credentials, scopes)\<close> is a
  parameter. \<^verbatim>\<open>scopes or _DEFAULT_SCOPES\<close> takes the default for \<open>None\<close> and for the empty
  list.
\<close>

definition init ::
  "('cred \<Rightarrow> string list \<Rightarrow> 's graph_client) \<Rightarrow> 'cred option \<Rightarrow> string list option
     \<Rightarrow> 's graph_client option \<Rightarrow> error + 's OneDriveClient" where
  "init GraphServiceClient credential scopes graph_client =
     (case graph_client of
        Some g \<Rightarrow> Inr \<lparr>client = g\<rparr>
      | None \<Rightarrow>
          (case credential of
             Some cr \<Rightarrow>
               Inr \<lparr>client = GraphServiceClient cr
                      (case scopes of None \<Rightarrow> DEFAULT_SCOPES
                       | Some sc \<Rightarrow> if sc = [] then DEFAULT_SCOPES else sc)\<rparr>
           | None \<Rightarrow>
               Inl (ValueError
                 (''Either '' @ [CHR 0x27] @ ''credential'' @ [CHR 0x27] @ '' or ''
                  @ [CHR 0x27] @ ''graph_client'' @ [CHR 0x27] @ '' must be provided.''))))"

text \<open>\<^verbatim>\<open>get_site_default_drive_id\<close>: \<open>None\<close> or a drive without an id is not-found.\<close>

definition get_site_default_drive_id ::
  "'s OneDriveClient \<Rightarrow> string \<Rightarrow> 's \<Rightarrow> (error + string) \<times> 's" where
  "get_site_default_drive_id self site_id' s =
     (case sites_drive_get (client self) site_id' s of
        (Inl e, s1) \<Rightarrow> (Inl e, s1)
      | (Inr None, s1) \<Rightarrow>
          (Inl (FileNotFoundError (''Default drive not found for site '' @ site_id')), s1)
      | (Inr (Some drive), s1) \<Rightarrow>
          (case drive_id drive of
             None \<Rightarrow>
               (Inl (FileNotFoundError (''Default drive not found for site '' @ site_id')), s1)
           | Some i \<Rightarrow> (Inr i, s1)))"

text \<open>
  \<^verbatim>\<open>get_site_drive_id\<close>: the site is fetched under \<open>hostname:site_path\<close>, then the drive
  under \<^verbatim>\<open>site.id or ""\<close>; the result is \<^verbatim>\<open>drive.id or ""\<close>.
\<close>

definition get_site_drive_id ::
  "'s OneDriveClient \<Rightarrow> string \<Rightarrow> string \<Rightarrow> 's \<Rightarrow> (error + string) \<times> 's" where
  "get_site_drive_id self hostname site_path s =
     (case sites_get (client self) (hostname @ '':'' @ site_path) s of
        (Inl e, s1) \<Rightarrow> (Inl e, s1)
      | (Inr None, s1) \<Rightarrow>
          (Inl (FileNotFoundError (''Site not found: '' @ hostname @ '':'' @ site_path)), s1)
      | (Inr (Some site), s1) \<Rightarrow>
          (case sites_drive_get (client self) (or_str (site_id site) []) s1 of
             (Inl e, s2) \<Rightarrow> (Inl e, s2)
           | (Inr None, s2) \<Rightarrow>
               (Inl (FileNotFoundError
                  (''Default drive not found for site '' @ hostname @ '':'' @ site_path)), s2)
           | (Inr (Some drive), s2) \<Rightarrow> (Inr (or_str (drive_id drive) []), s2)))"

text \<open>\<^verbatim>\<open>list_items\<close>: no response, or a response without a value, is the empty list.\<close>

definition list_items ::
  "'s OneDriveClient \<Rightarrow> string \<Rightarrow> string \<Rightarrow> 's \<Rightarrow> (error + DriveItemInfo list) \<times> 's" where
  "list_items self drive folder_id s =
     (case children_get (client self) drive folder_id s of
        (Inl e, s1) \<Rightarrow> (Inl e, s1)
      | (Inr None, s1) \<Rightarrow> (Inr [], s1)
      | (Inr (Some result), s1) \<Rightarrow>
          (case cr_value result of
             None \<Rightarrow> (Inr [], s1)
           | Some v \<Rightarrow> (Inr (map to_drive_item_info v), s1)))"

text \<open>
  \<^verbatim>\<open>list_items_by_path\<close>: the folder is fetched under the key \<open>root:/<path>:\<close>, then
  \<open>list_items\<close> is called with \<^verbatim>\<open>folder_item.id or "root"\<close>.
\<close>

definition list_items_by_path ::
  "'s OneDriveClient \<Rightarrow> string \<Rightarrow> string \<Rightarrow> 's \<Rightarrow> (error + DriveItemInfo list) \<times> 's" where
  "list_items_by_path self drive path s =
     (case items_get (client self) drive (''root:/'' @ path @ '':'') s of
        (Inl e, s1) \<Rightarrow> (Inl e, s1)
      | (Inr None, s1) \<Rightarrow> (Inl (FileNotFoundError (''Folder not found at path: '' @ path)), s1)
      | (Inr (Some folder_item), s1) \<Rightarrow>
          list_items self drive (or_str (di_id folder_item) ''root'') s1)"

text \<open>\<^verbatim>\<open>get_item\<close>.\<close>

definition get_item ::
  "'s OneDriveClient \<Rightarrow> string \<Rightarrow> string \<Rightarrow> 's \<Rightarrow> (error + DriveItemInfo) \<times> 's" where
  "get_item self drive item_id s =
     (case items_get (client self) drive item_id s of
        (Inl e, s1) \<Rightarrow> (Inl e, s1)
      | (Inr None, s1) \<Rightarrow> (Inl (FileNotFoundError (''Item not found: '' @ item_id)), s1)
      | (Inr (Some item), s1) \<Rightarrow> (Inr (to_drive_item_info item), s1))"

text \<open>
  \<^verbatim>\<open>upload_file\<close> and \<^verbatim>\<open>upload_file_by_path\<close>: one content \<open>PUT\<close>, addressed by
  \<open><parent>:/<filename>:\<close> and by \<open>root:/<remote_path>:\<close>.
\<close>

definition upload_file ::
  "'s OneDriveClient \<Rightarrow> string \<Rightarrow> string \<Rightarrow> string \<Rightarrow> bytes \<Rightarrow> 's
     \<Rightarrow> (error + DriveItemInfo) \<times> 's" where
  "upload_file self drive parent_folder_id filename content s =
     (case content_put (client self) drive (parent_folder_id @ '':/'' @ filename @ '':'')
             content s of
        (Inl e, s1) \<Rightarrow> (Inl e, s1)
      | (Inr None, s1) \<Rightarrow>
          (Inl (RuntimeError (''Upload returned no metadata for '' @ filename)), s1)
      | (Inr (Some result), s1) \<Rightarrow> (Inr (to_drive_item_info result), s1))"

definition upload_file_by_path ::
  "'s OneDriveClient \<Rightarrow> string \<Rightarrow> string \<Rightarrow> bytes \<Rightarrow> 's \<Rightarrow> (error + DriveItemInfo) \<times> 's" where
  "upload_file_by_path self drive remote_path content s =
     (case content_put (client self) drive (''root:/'' @ remote_path @ '':'') content s of
        (Inl e, s1) \<Rightarrow> (Inl e, s1)
      | (Inr None, s1) \<Rightarrow>
          (Inl (RuntimeError (''Upload returned no metadata for '' @ remote_path)), s1)
      | (Inr (Some result), s1) \<Rightarrow> (Inr (to_drive_item_info result), s1))"

text \<open>
  \<^verbatim>\<open>create_folder\<close>: the posted body is a \<open>DriveItem\<close> with the name, a folder marker and
  the conflict behaviour \<open>rename\<close> in its side-channel dictionary.
\<close>

definition new_folder :: "string \<Rightarrow> DriveItem" where
  "new_folder folder_name =
     empty_DriveItem
       \<lparr>di_name := Some folder_name,
        di_folder := Some Folder,
        di_additional_data := [''@microsoft.graph.conflictBehavior'' \<mapsto> ''rename'']\<rparr>"

definition create_folder ::
  "'s OneDriveClient \<Rightarrow> string \<Rightarrow> string \<Rightarrow> string \<Rightarrow> 's \<Rightarrow> (error + DriveItemInfo) \<times> 's" where
  "create_folder self drive parent_folder_id folder_name s =
     (case children_post (client self) drive parent_folder_id (new_folder folder_name) s of
        (Inl e, s1) \<Rightarrow> (Inl e, s1)
      | (Inr None, s1) \<Rightarrow>
          (Inl (RuntimeError (''Folder creation returned no metadata for '' @ folder_name)), s1)
      | (Inr (Some result), s1) \<Rightarrow> (Inr (to_drive_item_info result), s1))"

section \<open>Download: the local file system\<close>

text \<open>
  \<^verbatim>\<open>download_file\<close> works on a \<open>pathlib.Path\<close>: it asks \<open>is_dir()\<close>, joins a name with
  \<open>/\<close>, takes \<open>.parent\<close>, and calls \<open>mkdir(parents=True, exist_ok=True)\<close> and
  \<open>write_bytes\<close>. The path type \<open>'p\<close>, the state \<open>'f\<close> of the file system and these five
  operations are parameters, as the transport is.
\<close>

record ('p, 'f) local_fs =
  is_dir :: "'p \<Rightarrow> 'f \<Rightarrow> bool"
  joinpath :: "'p \<Rightarrow> string \<Rightarrow> 'p"
  parent :: "'p \<Rightarrow> 'p"
  mkdir_parents :: "'p \<Rightarrow> 'f \<Rightarrow> (error + unit) \<times> 'f"
  write_bytes :: "'p \<Rightarrow> bytes \<Rightarrow> 'f \<Rightarrow> (error + unit) \<times> 'f"

text \<open>
  \<^verbatim>\<open>download_file\<close>, on the pair of the remote state and the file system's state. Its
  first statement, \<^verbatim>\<open>destination = Path(destination)\<close>, turns a string into a path; the
  model takes the path. The \<open>logger.info\<close> call is not modelled.
\<close>

definition download_file ::
  "'s OneDriveClient \<Rightarrow> ('p, 'f) local_fs \<Rightarrow> string \<Rightarrow> string \<Rightarrow> 'p \<Rightarrow> 's \<times> 'f
     \<Rightarrow> (error + 'p) \<times> ('s \<times> 'f)" where
  "download_file self fs drive item_id destination w =
     (case w of (s, f) \<Rightarrow>
        (case (if is_dir fs destination f
               then (case get_item self drive item_id s of
                       (Inl e, s1) \<Rightarrow> (Inl e, s1)
                     | (Inr meta, s1) \<Rightarrow> (Inr (joinpath fs destination (name_info meta)), s1))
               else (Inr destination, s)) of
           (Inl e, s1) \<Rightarrow> (Inl e, (s1, f))
         | (Inr destination', s1) \<Rightarrow>
             (case content_get (client self) drive item_id s1 of
                (Inl e, s2) \<Rightarrow> (Inl e, (s2, f))
              | (Inr None, s2) \<Rightarrow>
                  (Inl (FileNotFoundError (''No content returned for item '' @ item_id)),
                   (s2, f))
              | (Inr (Some content), s2) \<Rightarrow>
                  (case mkdir_parents fs (parent fs destination') f of
                     (Inl e, f1) \<Rightarrow> (Inl e, (s2, f1))
                   | (Inr _, f1) \<Rightarrow>
                       (case write_bytes fs destination' content f1 of
                          (Inl e, f2) \<Rightarrow> (Inl e, (s2, f2))
                        | (Inr _, f2) \<Rightarrow> (Inr destination', (s2, f2)))))))"

section \<open>The client factory\<close>

text \<open>
  \<^verbatim>\<open>get_onedrive_client\<close> is wrapped in \<open>functools.lru_cache\<close> and takes no argument, so
  the cache has one slot. A process is the state the factory can see: the environment
  \<open>'w\<close> that the constructor \<open>DefaultAzureCredential()\<close> reads (a parameter, and it may
  raise), the objects of class \<open>OneDriveClient\<close> built so far (an object's identity is its
  index), and the cache slot, holding the identity of the memoised object. A call that
  raises stores nothing, as \<open>lru_cache\<close> stores only returned values.
\<close>

record ('w, 's) process =
  env :: 'w
  heap :: "'s OneDriveClient list"
  cache :: "nat option"

definition get_onedrive_client ::
  "('w \<Rightarrow> (error + 'cred) \<times> 'w) \<Rightarrow> ('cred \<Rightarrow> string list \<Rightarrow> 's graph_client)
     \<Rightarrow> ('w, 's) process \<Rightarrow> (error + nat) \<times> ('w, 's) process" where
  "get_onedrive_client DefaultAzureCredential GraphServiceClient p =
     (case cache p of
        Some a \<Rightarrow> (Inr a, p)
      | None \<Rightarrow>
          (case DefaultAzureCredential (env p) of
             (Inl e, w1) \<Rightarrow> (Inl e, p\<lparr>env := w1\<rparr>)
           | (Inr credential, w1) \<Rightarrow>
               (case init GraphServiceClient (Some credential) None None of
                  Inl e \<Rightarrow> (Inl e, p\<lparr>env := w1\<rparr>)
                | Inr obj \<Rightarrow>
                    (Inr (length (heap p)),
                     p\<lparr>env := w1, heap := heap p @ [obj],
                       cache := Some (length (heap p))\<rparr>))))"

text \<open>\<open>n\<close> calls of the factory in a row, with the result of each.\<close>

fun calls ::
  "('w \<Rightarrow> (error + 'cred) \<times> 'w) \<Rightarrow> ('cred \<Rightarrow> string list \<Rightarrow> 's graph_client) \<Rightarrow> nat
     \<Rightarrow> ('w, 's) process \<Rightarrow> (error + nat) list \<times> ('w, 's) process" where
  "calls D G 0 p = ([], p)"
| "calls D G (Suc n) p =
     (case get_onedrive_client D G p of
        (r, p1) \<Rightarrow> (case calls D G n p1 of (rs, p2) \<Rightarrow> (r # rs, p2)))"

text \<open>
  Calls that overlap. The decorator's wrapper looks the key up; on a miss it calls the
  decorated function, without holding its lock, and afterwards stores the result unless
  the slot has been filled in the meantime; it returns the result it computed either way,
  and an exception of the function propagates with nothing stored. \<open>wrapped\<close> is the
  decorated function itself (the two statements of its body): it builds a credential and a
  facade and returns the new object.
\<close>

definition wrapped ::
  "('w \<Rightarrow> (error + 'cred) \<times> 'w) \<Rightarrow> ('cred \<Rightarrow> string list \<Rightarrow> 's graph_client)
     \<Rightarrow> ('w, 's) process \<Rightarrow> (error + nat) \<times> ('w, 's) process" where
  "wrapped DefaultAzureCredential GraphServiceClient p =
     (case DefaultAzureCredential (env p) of
        (Inl e, w1) \<Rightarrow> (Inl e, p\<lparr>env := w1\<rparr>)
      | (Inr credential, w1) \<Rightarrow>
          (case init GraphServiceClient (Some credential) None None of
             Inl e \<Rightarrow> (Inl e, p\<lparr>env := w1\<rparr>)
           | Inr obj \<Rightarrow> (Inr (length (heap p)), p\<lparr>env := w1, heap := heap p @ [obj]\<rparr>)))"

text \<open>
  A call in progress is at one of four points: entered, past a lookup that missed, past
  the decorated function with its result, or returned. \<open>step\<close> moves one call forward by
  one of the wrapper's three actions.
\<close>

datatype call = Entered | Missed | Computed nat | Returned "error + nat"

definition step ::
  "('w \<Rightarrow> (error + 'cred) \<times> 'w) \<Rightarrow> ('cred \<Rightarrow> string list \<Rightarrow> 's graph_client)
     \<Rightarrow> call \<Rightarrow> ('w, 's) process \<Rightarrow> call \<times> ('w, 's) process" where
  "step D G c p =
     (case c of
        Entered \<Rightarrow> (case cache p of Some a \<Rightarrow> (Returned (Inr a), p) | None \<Rightarrow> (Missed, p))
      | Missed \<Rightarrow>
          (case wrapped D G p of
             (Inl e, p1) \<Rightarrow> (Returned (Inl e), p1)
           | (Inr a, p1) \<Rightarrow> (Computed a, p1))
      | Computed a \<Rightarrow>
          (Returned (Inr a), (case cache p of None \<Rightarrow> p\<lparr>cache := Some a\<rparr> | Some b \<Rightarrow> p))
      | Returned r \<Rightarrow> (Returned r, p))"

text \<open>
  A schedule names, action by action, which of the calls in progress moves next.
\<close>

fun run ::
  "('w \<Rightarrow> (error + 'cred) \<times> 'w) \<Rightarrow> ('cred \<Rightarrow> string list \<Rightarrow> 's graph_client)
     \<Rightarrow> nat list \<Rightarrow> call list \<Rightarrow> ('w, 's) process \<Rightarrow> call list \<times> ('w, 's) process" where
  "run D G [] cs p = (cs, p)"
| "run D G (i # sched) cs p =
     (if i < length cs
      then (case step D G (cs ! i) p of (c, p1) \<Rightarrow> run D G sched (cs[i := c]) p1)
      else run D G sched cs p)"

section \<open>Test doubles\<close>

subsection \<open>A remote service that replaces on upload\<close>

text \<open>
  A small remote service to run the facade against: tables of sites, default drives,
  items by addressing key, children by folder identifier and content by addressing key,
  and a log of the requests received. A content \<open>PUT\<close> under a key that already has an item
  replaces that item's content and answers with the same item, which is what the Graph
  service does for a \<open>PUT\<close> that names no conflict behaviour.
\<close>

datatype request =
    SitesGet string
  | SitesDriveGet string
  | ItemsGet string string
  | ChildrenGet string string
  | ContentGet string string
  | ContentPut string string bytes
  | ChildrenPost string string DriveItem

record remote =
  r_sites :: "(string \<times> Site) list"
  r_drives :: "(string \<times> Drive) list"
  r_items :: "((string \<times> string) \<times> DriveItem) list"
  r_children :: "((string \<times> string) \<times> DriveItem list) list"
  r_content :: "((string \<times> string) \<times> bytes) list"
  r_log :: "request list"

definition logged :: "request \<Rightarrow> remote \<Rightarrow> remote" where
  "logged q r = r\<lparr>r_log := r_log r @ [q]\<rparr>"

definition replacing_service :: "remote graph_client" where
  "replacing_service =
     \<lparr>sites_get = (\<lambda>k r. (Inr (map_of (r_sites r) k), logged (SitesGet k) r)),
      sites_drive_get = (\<lambda>k r. (Inr (map_of (r_drives r) k), logged (SitesDriveGet k) r)),
      items_get = (\<lambda>d k r. (Inr (map_of (r_items r) (d, k)), logged (ItemsGet d k) r)),
      children_get = (\<lambda>d k r.
        (Inr (map_option (\<lambda>v. \<lparr>cr_value = Some v\<rparr>) (map_of (r_children r) (d, k))),
         logged (ChildrenGet d k) r)),
      content_get = (\<lambda>d k r. (Inr (map_of (r_content r) (d, k)), logged (ContentGet d k) r)),
      content_put = (\<lambda>d k b r.
        (case map_of (r_items r) (d, k) of
           Some existing \<Rightarrow>
             (Inr (Some existing),
              logged (ContentPut d k b)
                (r\<lparr>r_content := ((d, k), b) # filter (\<lambda>e. fst e \<noteq> (d, k)) (r_content r)\<rparr>))
         | None \<Rightarrow>
             (Inr (Some (empty_DriveItem\<lparr>di_id := Some k, di_file := Some (File None)\<rparr>)),
              logged (ContentPut d k b)
                (r\<lparr>r_items := ((d, k), empty_DriveItem\<lparr>di_id := Some k,
                                   di_file := Some (File None)\<rparr>) # r_items r,
                   r_content := ((d, k), b) # r_content r\<rparr>)))),
      children_post = (\<lambda>d k body r.
        (Inr (Some (body\<lparr>di_id := Some (k @ ''/'' @ or_str (di_name body) [])\<rparr>)),
         logged (ChildrenPost d k body) r))\<rparr>"

definition empty_remote :: remote where
  "empty_remote =
     \<lparr>r_sites = [], r_drives = [], r_items = [], r_children = [], r_content = [],
      r_log = []\<rparr>"

subsection \<open>A file system of directories and regular files\<close>

text \<open>
  A POSIX file system without symbolic links and without permissions. A path is the list
  of its components, as \<open>pathlib\<close> keeps them (\<open>..\<close> is kept, \<open>.\<close> and empty components
  do not occur), read from the root directory, which always exists; the state is a table
  from locations to nodes. A path is resolved as the kernel does it, one component at a
  time: stepping through something that does not exist is \<open>ENOENT\<close>, which Python raises as
  \<open>FileNotFoundError\<close>; stepping through a regular file is \<open>NotADirectoryError\<close>; \<open>..\<close> leads
  to the parent of the directory reached. The last component need not exist.
\<close>

datatype node = Dir | RegularFile bytes

type_synonym tree = "(string list \<times> node) list"

definition dir_at :: "tree \<Rightarrow> string list \<Rightarrow> bool" where
  "dir_at f q = (q = [] \<or> map_of f q = Some Dir)"

fun walk :: "tree \<Rightarrow> string list \<Rightarrow> string list \<Rightarrow> error + string list" where
  "walk f cur [] = Inr cur"
| "walk f cur (c # cs) =
     (if dir_at f cur
      then walk f (if c = ''..'' then butlast cur
                   else if c = ''.'' \<or> c = [] then cur
                   else cur @ [c]) cs
      else if map_of f cur = None then Inl (FileNotFoundError ''No such file or directory'')
      else Inl (OSError ''NotADirectoryError''))"

text \<open>\<open>Path.is_dir()\<close>: false when the path does not resolve.\<close>

definition tree_is_dir :: "string list \<Rightarrow> tree \<Rightarrow> bool" where
  "tree_is_dir p f = (case walk f [] p of Inl e \<Rightarrow> False | Inr q \<Rightarrow> dir_at f q)"

text \<open>\<open>os.mkdir\<close>: creates one directory; what exists already is \<open>FileExistsError\<close>.\<close>

definition os_mkdir :: "string list \<Rightarrow> tree \<Rightarrow> (error + unit) \<times> tree" where
  "os_mkdir p f =
     (case walk f [] p of
        Inl e \<Rightarrow> (Inl e, f)
      | Inr q \<Rightarrow>
          if q = [] \<or> map_of f q \<noteq> None then (Inl (OSError ''FileExistsError''), f)
          else (Inr (), (q, Dir) # f))"

definition is_ENOENT :: "error \<Rightarrow> bool" where
  "is_ENOENT e = (case e of FileNotFoundError m \<Rightarrow> True | _ \<Rightarrow> False)"

text \<open>
  \<open>Path.mkdir\<close> as \<open>pathlib\<close> writes it: try \<open>os.mkdir\<close>; on \<open>FileNotFoundError\<close> make the
  parent with \<open>parents=True\<close> and then this directory without (the path that is its own
  parent re-raises); on any other \<open>OSError\<close> re-raise unless the path is a directory.
  \<open>mkdir_exist_ok\<close> is the call with \<open>parents=False, exist_ok=True\<close>, \<open>tree_mkdir_parents\<close>
  the call with \<open>parents=True, exist_ok=True\<close>.
\<close>

definition mkdir_exist_ok :: "string list \<Rightarrow> tree \<Rightarrow> (error + unit) \<times> tree" where
  "mkdir_exist_ok p f =
     (case os_mkdir p f of
        (Inr u, f1) \<Rightarrow> (Inr u, f1)
      | (Inl e, f1) \<Rightarrow>
          if is_ENOENT e then (Inl e, f1)
          else if tree_is_dir p f1 then (Inr (), f1)
          else (Inl e, f1))"

function tree_mkdir_parents :: "string list \<Rightarrow> tree \<Rightarrow> (error + unit) \<times> tree" where
  "tree_mkdir_parents p f =
     (case os_mkdir p f of
        (Inr u, f1) \<Rightarrow> (Inr u, f1)
      | (Inl e, f1) \<Rightarrow>
          if is_ENOENT e
          then (if p = [] then (Inl e, f1)
                else (case tree_mkdir_parents (butlast p) f1 of
                        (Inl e', f2) \<Rightarrow> (Inl e', f2)
                      | (Inr u, f2) \<Rightarrow> mkdir_exist_ok p f2))
          else if tree_is_dir p f1 then (Inr (), f1)
          else (Inl e, f1))"
  by pat_completeness auto
termination
  by (relation "measure (\<lambda>(p, f). length p)") auto

text \<open>
  \<open>Path.write_bytes\<close>: opens the path for writing, which fails on a directory, and
  replaces the content of a regular file or creates one.
\<close>

definition tree_write_bytes :: "string list \<Rightarrow> bytes \<Rightarrow> tree \<Rightarrow> (error + unit) \<times> tree" where
  "tree_write_bytes p b f =
     (case walk f [] p of
        Inl e \<Rightarrow> (Inl e, f)
      | Inr q \<Rightarrow>
          if dir_at f q then (Inl (OSError ''IsADirectoryError''), f)
          else (Inr (), (q, RegularFile b) # filter (\<lambda>e. fst e \<noteq> q) f))"

text \<open>
  Joining a name as \<open>pathlib\<close> does: the name is cut at every \<open>/\<close>, empty components and
  \<open>.\<close> are dropped, and a name that starts with \<open>/\<close> replaces the path it is joined to.
  \<open>.parent\<close> drops the last component, and the empty path is its own parent.
\<close>

fun split_slash :: "string \<Rightarrow> string list" where
  "split_slash [] = [[]]"
| "split_slash (c # cs) =
     (if c = CHR ''/'' then [] # split_slash cs
      else (case split_slash cs of [] \<Rightarrow> [[c]] | x # xs \<Rightarrow> (c # x) # xs))"

definition path_parts :: "string \<Rightarrow> string list" where
  "path_parts n = filter (\<lambda>x. x \<noteq> [] \<and> x \<noteq> ''.'') (split_slash n)"

definition tree_joinpath :: "string list \<Rightarrow> string \<Rightarrow> string list" where
  "tree_joinpath p n = (if take 1 n = ''/'' then path_parts n else p @ path_parts n)"

definition tree_fs :: "(string list, tree) local_fs" where
  "tree_fs =
     \<lparr>is_dir = tree_is_dir,
      joinpath = tree_joinpath,
      parent = butlast,
      mkdir_parents = tree_mkdir_parents,
      write_bytes = tree_write_bytes\<rparr>"

subsection \<open>Scenarios\<close>

text \<open>The facade over the replacing service.\<close>

definition facade :: "remote OneDriveClient" where
  "facade = \<lparr>client = replacing_service\<rparr>"

text \<open>
  Drive \<open>D1\<close> with a folder \<open>Docs\<close> (identifier \<open>F1\<close>) holding one file, and a folder
  \<open>Odd\<close> that the service reports without an identifier.
\<close>

definition docs_folder :: DriveItem where
  "docs_folder =
     empty_DriveItem\<lparr>di_id := Some ''F1'', di_name := Some ''Docs'', di_folder := Some Folder\<rparr>"

definition odd_folder :: DriveItem where
  "odd_folder = empty_DriveItem\<lparr>di_name := Some ''Odd'', di_folder := Some Folder\<rparr>"

definition a_txt :: DriveItem where
  "a_txt =
     empty_DriveItem\<lparr>di_id := Some ''I7'', di_name := Some ''a.txt'', di_size := Some 2,
       di_file := Some (File (Some ''text/plain''))\<rparr>"

definition docs_remote :: remote where
  "docs_remote =
     empty_remote
       \<lparr>r_items := [((''D1'', ''root:/Docs:''), docs_folder),
                    ((''D1'', ''root:/Odd:''), odd_folder)],
        r_children := [((''D1'', ''F1''), [a_txt]), ((''D1'', ''root''), [docs_folder])]\<rparr>"

text \<open>A site whose default drive comes back without an identifier.\<close>

definition contoso_remote :: remote where
  "contoso_remote =
     empty_remote
       \<lparr>r_sites := [(''contoso.sharepoint.com:/sites/my-team'', \<lparr>site_id = Some ''S1''\<rparr>)],
        r_drives := [(''S1'', \<lparr>drive_id = None\<rparr>)]\<rparr>"

text \<open>The root of drive \<open>D1\<close> already holds \<open>a.txt\<close> with the content \<open>hi\<close>.\<close>

definition existing_a_txt :: DriveItem where
  "existing_a_txt =
     empty_DriveItem\<lparr>di_id := Some ''ITEM1'', di_name := Some ''a.txt'', di_size := Some 2,
       di_file := Some (File (Some ''text/plain''))\<rparr>"

definition a_txt_remote :: remote where
  "a_txt_remote =
     empty_remote
       \<lparr>r_items := [((''D1'', ''root:/a.txt:''), existing_a_txt)],
        r_content := [((''D1'', ''root:/a.txt:''), ''hi'')]\<rparr>"



definition tmp_out :: tree where
  "tmp_out = [([''tmp''], Dir), ([''tmp'', ''out''], Dir)]"

text \<open>Item \<open>U\<close> is reported under the name \<open>..\<close>.\<close>

definition dotdot_remote :: remote where
  "dotdot_remote =
     empty_remote
       \<lparr>r_items := [((''D1'', ''U''),
                     empty_DriveItem\<lparr>di_id := Some ''U'', di_name := Some ''..''\<rparr>)],
        r_content := [((''D1'', ''U''), ''x'')]\<rparr>"

text \<open>
  A process at start: nothing built, nothing memoised. The credential constructor fails
  on its first use and succeeds from then on (the environment counts its uses); the SDK
  constructor gives the replacing service.
\<close>

definition starting_process :: "(nat, remote) process" where
  "starting_process = \<lparr>env = 0, heap = [], cache = None\<rparr>"

definition flaky_credential :: "nat \<Rightarrow> (error + string) \<times> nat" where
  "flaky_credential w =
     (if w = 0 then Inl (ValueError ''no credential available'')
      else Inr ''DefaultAzureCredential'', Suc w)"

text \<open>The same process once credentials are available.\<close>

definition ready_process :: "(nat, remote) process" where
  "ready_process = \<lparr>env = 1, heap = [], cache = None\<rparr>"

definition sdk_client :: "string \<Rightarrow> string list \<Rightarrow> remote graph_client" where
  "sdk_client credential scopes = replacing_service"

section \<open>Properties of the normaliser\<close>

lemma or_str_empty_default: "or_str x [] = (case x of None \<Rightarrow> [] | Some v \<Rightarrow> v)"
  by (simp add: or_str_def split: option.split)

text \<open>
  Claim C5. Normalisation is a total function with no error result: for every raw record
  it yields a \<open>DriveItemInfo\<close>. Identifier and name are the record's, or the empty string
  when absent; size, timestamps and web URL are copied as they are, so an absent one stays
  absent (\<open>None\<close>, never \<open>0\<close>); the MIME type is read from the file marker and is absent
  without one; is-folder is the presence of the folder marker; the download URL is the
  entry of the side-channel dictionary under the key \<open>@microsoft.graph.downloadUrl\<close>.
  On the record with nothing set, every optional field of the result is \<open>None\<close>.
\<close>

theorem to_drive_item_info_fields:
  "id_info (to_drive_item_info item) = (case di_id item of None \<Rightarrow> [] | Some v \<Rightarrow> v)
   \<and> name_info (to_drive_item_info item) = (case di_name item of None \<Rightarrow> [] | Some v \<Rightarrow> v)
   \<and> size_info (to_drive_item_info item) = di_size item
   \<and> mime_type (to_drive_item_info item)
        = (case di_file item of None \<Rightarrow> None | Some f \<Rightarrow> file_mime_type f)
   \<and> is_folder (to_drive_item_info item) = (di_folder item \<noteq> None)
   \<and> created_at (to_drive_item_info item) = di_created_date_time item
   \<and> modified_at (to_drive_item_info item) = di_last_modified_date_time item
   \<and> web_url_info (to_drive_item_info item) = di_web_url item
   \<and> download_url (to_drive_item_info item)
        = di_additional_data item ''@microsoft.graph.downloadUrl''
   \<and> to_drive_item_info empty_DriveItem
        = \<lparr>id_info = [], name_info = [], size_info = None, mime_type = None,
           is_folder = False, created_at = None, modified_at = None,
           web_url_info = None, download_url = None\<rparr>"
  by (simp add: to_drive_item_info_def or_str_empty_default empty_DriveItem_def)

text \<open>
  Claim C8. For every normalised value, is-file holds exactly when is-folder does not.
\<close>

theorem is_file_complements_is_folder:
  "is_file (to_drive_item_info item) = (\<not> is_folder (to_drive_item_info item))
   \<and> is_file (to_drive_item_info item) = (di_folder item = None)"
  by (simp add: is_file_def to_drive_item_info_def)

section \<open>Properties of the facade\<close>

subsection \<open>Construction\<close>

text \<open>
  Claim C9. Constructing the facade fails, with the configuration error \<open>ValueError\<close>,
  exactly when neither a credential nor a pre-built transport client is given; the
  result of the constructor is that error, so no facade exists on which an operation could
  be attempted. With a transport client the facade wraps it; with a credential
  construction succeeds as well.
\<close>

theorem init_requires_credential_or_client:
  "(init G credential scopes graph_client = Inl e)
     = (credential = None \<and> graph_client = None
        \<and> e = ValueError (''Either '' @ [CHR 0x27] @ ''credential'' @ [CHR 0x27] @ '' or ''
                  @ [CHR 0x27] @ ''graph_client'' @ [CHR 0x27] @ '' must be provided.''))
   \<and> init G credential scopes (Some g) = Inr \<lparr>client = g\<rparr>
   \<and> (\<exists>c. init G (Some cr) scopes graph_client = Inr c)"
  by (auto simp: init_def split: option.splits)

subsection \<open>Listing by path\<close>

text \<open>
  Claim C2. When the fetch under the key \<open>root:/<path>:\<close> answers with an item that has a
  non-empty identifier, \<open>list_items_by_path\<close> is \<open>list_items\<close> on that identifier, run
  on the remote state the fetch left: the same result and the same final state.
\<close>

theorem list_items_by_path_is_resolve_then_list:
  assumes "items_get (client self) drive (''root:/'' @ path @ '':'') s
             = (Inr (Some folder_item), s1)"
    and "di_id folder_item = Some folder_id"
    and "folder_id \<noteq> []"
  shows "list_items_by_path self drive path s = list_items self drive folder_id s1"
  using assms by (simp add: list_items_by_path_def or_str_def)

theorem list_items_by_path_is_resolve_then_list_witness:
  "items_get (client facade) ''D1'' (''root:/'' @ ''Docs'' @ '':'') docs_remote
     = (Inr (Some docs_folder), logged (ItemsGet ''D1'' ''root:/Docs:'') docs_remote)
   \<and> di_id docs_folder = Some ''F1'' \<and> ''F1'' \<noteq> []
   \<and> list_items_by_path facade ''D1'' ''Docs'' docs_remote
       = list_items facade ''D1'' ''F1'' (logged (ItemsGet ''D1'' ''root:/Docs:'') docs_remote)
   \<and> fst (list_items facade ''D1'' ''F1''
             (logged (ItemsGet ''D1'' ''root:/Docs:'') docs_remote))
       = Inr [to_drive_item_info a_txt]"
proof -
  have h1: "items_get (client facade) ''D1'' (''root:/'' @ ''Docs'' @ '':'') docs_remote
     = (Inr (Some docs_folder), logged (ItemsGet ''D1'' ''root:/Docs:'') docs_remote)"
    by (simp add: facade_def replacing_service_def docs_remote_def empty_remote_def)
  have h2: "di_id docs_folder = Some ''F1''"
    by (simp add: docs_folder_def)
  have h3: "''F1'' \<noteq> []"
    by simp
  have h4: "fst (list_items facade ''D1'' ''F1''
                   (logged (ItemsGet ''D1'' ''root:/Docs:'') docs_remote))
       = Inr [to_drive_item_info a_txt]"
    by (simp add: list_items_def facade_def replacing_service_def docs_remote_def
        empty_remote_def logged_def)
  from list_items_by_path_is_resolve_then_list [OF h1 h2 h3] h1 h2 h3 h4
  show ?thesis by simp
qed

text \<open>
  Claim C3. When the fetch under the key \<open>root:/<path>:\<close> answers with nothing,
  \<open>list_items_by_path\<close> raises \<open>FileNotFoundError\<close> with the message \<open>Folder not found at
  path: <path>\<close>, in the state the fetch left (no listing is requested). The premise
  constrains the transport at that one key only, so the key sent is the bracketed path and
  nothing else.
\<close>

theorem list_items_by_path_not_found:
  assumes "items_get (client self) drive (''root:/'' @ path @ '':'') s = (Inr None, s1)"
  shows "list_items_by_path self drive path s
           = (Inl (FileNotFoundError (''Folder not found at path: '' @ path)), s1)"
  using assms by (simp add: list_items_by_path_def)

theorem list_items_by_path_not_found_witness:
  "items_get (client facade) ''D1'' (''root:/'' @ ''Docs/2024'' @ '':'') docs_remote
     = (Inr None, logged (ItemsGet ''D1'' ''root:/Docs/2024:'') docs_remote)
   \<and> list_items_by_path facade ''D1'' ''Docs/2024'' docs_remote
       = (Inl (FileNotFoundError ''Folder not found at path: Docs/2024''),
          logged (ItemsGet ''D1'' ''root:/Docs/2024:'') docs_remote)
   \<and> r_log (logged (ItemsGet ''D1'' ''root:/Docs/2024:'') docs_remote)
       = [ItemsGet ''D1'' ''root:/Docs/2024:'']"
proof -
  have h1: "items_get (client facade) ''D1'' (''root:/'' @ ''Docs/2024'' @ '':'') docs_remote
     = (Inr None, logged (ItemsGet ''D1'' ''root:/Docs/2024:'') docs_remote)"
    by (simp add: facade_def replacing_service_def docs_remote_def empty_remote_def)
  have h2: "r_log (logged (ItemsGet ''D1'' ''root:/Docs/2024:'') docs_remote)
       = [ItemsGet ''D1'' ''root:/Docs/2024:'']"
    by (simp add: logged_def docs_remote_def empty_remote_def)
  from list_items_by_path_not_found [OF h1] h1 h2 show ?thesis by simp
qed

text \<open>
  Claim C7. When the fetch answers with an item whose identifier is absent or empty,
  \<open>list_items_by_path\<close> lists the folder \<open>root\<close>: the caller gets the children of the
  drive's root, not an error.
\<close>

theorem list_items_by_path_falls_back_to_root:
  assumes "items_get (client self) drive (''root:/'' @ path @ '':'') s
             = (Inr (Some folder_item), s1)"
    and "di_id folder_item = None \<or> di_id folder_item = Some []"
  shows "list_items_by_path self drive path s = list_items self drive ''root'' s1"
  using assms by (auto simp: list_items_by_path_def or_str_def)

theorem list_items_by_path_falls_back_to_root_witness:
  "items_get (client facade) ''D1'' (''root:/'' @ ''Odd'' @ '':'') docs_remote
     = (Inr (Some odd_folder), logged (ItemsGet ''D1'' ''root:/Odd:'') docs_remote)
   \<and> (di_id odd_folder = None \<or> di_id odd_folder = Some [])
   \<and> list_items_by_path facade ''D1'' ''Odd'' docs_remote
       = list_items facade ''D1'' ''root'' (logged (ItemsGet ''D1'' ''root:/Odd:'') docs_remote)
   \<and> fst (list_items facade ''D1'' ''root''
             (logged (ItemsGet ''D1'' ''root:/Odd:'') docs_remote))
       = Inr [to_drive_item_info docs_folder]"
proof -
  have h1: "items_get (client facade) ''D1'' (''root:/'' @ ''Odd'' @ '':'') docs_remote
     = (Inr (Some odd_folder), logged (ItemsGet ''D1'' ''root:/Odd:'') docs_remote)"
    by (simp add: facade_def replacing_service_def docs_remote_def empty_remote_def)
  have h2: "di_id odd_folder = None \<or> di_id odd_folder = Some []"
    by (simp add: odd_folder_def empty_DriveItem_def)
  have h4: "fst (list_items facade ''D1'' ''root''
                   (logged (ItemsGet ''D1'' ''root:/Odd:'') docs_remote))
       = Inr [to_drive_item_info docs_folder]"
    by (simp add: list_items_def facade_def replacing_service_def docs_remote_def
        empty_remote_def logged_def)
  from list_items_by_path_falls_back_to_root [OF h1 h2] h1 h2 h4
  show ?thesis by simp
qed

subsection \<open>The default drive of a site\<close>

text \<open>What \<open>get_site_drive_id\<close> does with each reply of the two lookups.\<close>

lemma get_site_drive_id_cases:
  "(sites_get (client self) (hostname @ '':'' @ site_path) s = (Inr None, s1) \<longrightarrow>
      get_site_drive_id self hostname site_path s
        = (Inl (FileNotFoundError (''Site not found: '' @ hostname @ '':'' @ site_path)), s1))
   \<and> (sites_get (client self) (hostname @ '':'' @ site_path) s = (Inr (Some site), s1)
        \<and> sites_drive_get (client self) (or_str (site_id site) []) s1 = (Inr None, s2) \<longrightarrow>
      get_site_drive_id self hostname site_path s
        = (Inl (FileNotFoundError
             (''Default drive not found for site '' @ hostname @ '':'' @ site_path)), s2))
   \<and> (sites_get (client self) (hostname @ '':'' @ site_path) s = (Inr (Some site), s1)
        \<and> sites_drive_get (client self) (or_str (site_id site) []) s1 = (Inr (Some drive), s2)
        \<longrightarrow>
      get_site_drive_id self hostname site_path s = (Inr (or_str (drive_id drive) []), s2))"
  by (simp add: get_site_drive_id_def)

text \<open>
  Claim C4, at a site whose default drive is reported without an identifier:
  \<open>get_site_drive_id\<close> returns the empty string, where \<open>get_site_default_drive_id\<close>, asked
  for the same site by its identifier, raises \<open>FileNotFoundError\<close>.
\<close>

theorem get_site_drive_id_drive_without_id:
  "fst (get_site_drive_id facade ''contoso.sharepoint.com'' ''/sites/my-team'' contoso_remote)
     = Inr []
   \<and> fst (get_site_default_drive_id facade ''S1'' contoso_remote)
       = Inl (FileNotFoundError ''Default drive not found for site S1'')"
  by (simp add: get_site_drive_id_def get_site_default_drive_id_def facade_def
      replacing_service_def contoso_remote_def empty_remote_def or_str_def logged_def)

subsection \<open>Upload and folder creation\<close>

text \<open>
  Claim C1, refuted as stated: uploading \<open>a.txt\<close> into a root that already holds \<open>a.txt\<close>,
  against a service that replaces. The upload succeeds with the metadata of the existing
  item \<open>ITEM1\<close>; afterwards the drive still has that one item, and its content \<open>hi\<close> has
  been replaced by \<open>yo\<close>. The one request sent is the content \<open>PUT\<close>, which names no
  conflict behaviour.
\<close>

theorem upload_file_replaces_counterexample:
  "fst (upload_file facade ''D1'' ''root'' ''a.txt'' ''yo'' a_txt_remote)
     = Inr (to_drive_item_info existing_a_txt)
   \<and> id_info (to_drive_item_info existing_a_txt) = ''ITEM1''
   \<and> r_items (snd (upload_file facade ''D1'' ''root'' ''a.txt'' ''yo'' a_txt_remote))
       = [((''D1'', ''root:/a.txt:''), existing_a_txt)]
   \<and> r_content a_txt_remote = [((''D1'', ''root:/a.txt:''), ''hi'')]
   \<and> r_content (snd (upload_file facade ''D1'' ''root'' ''a.txt'' ''yo'' a_txt_remote))
       = [((''D1'', ''root:/a.txt:''), ''yo'')]
   \<and> r_log (snd (upload_file facade ''D1'' ''root'' ''a.txt'' ''yo'' a_txt_remote))
       = [ContentPut ''D1'' ''root:/a.txt:'' ''yo'']"
  by (simp add: upload_file_def facade_def replacing_service_def a_txt_remote_def
      empty_remote_def logged_def existing_a_txt_def to_drive_item_info_def or_str_def
      empty_DriveItem_def)

text \<open>
  Claim C1, amended. An upload is one content \<open>PUT\<close>, under \<open><parent>:/<filename>:\<close> or
  \<open>root:/<remote_path>:\<close>, and its outcome is the service's reply to it: the normalised
  item when there is one, \<open>RuntimeError\<close> when there is none, the transport's own
  exception otherwise; the remote state afterwards is the one that \<open>PUT\<close> left. Only
  \<open>create_folder\<close> fixes a conflict policy: the body it posts carries the conflict
  behaviour \<open>rename\<close>.
\<close>

theorem upload_is_one_put_without_conflict_policy:
  "fst (upload_file self drive parent_folder_id filename content s)
     = (case fst (content_put (client self) drive (parent_folder_id @ '':/'' @ filename @ '':'')
                    content s) of
          Inl e \<Rightarrow> Inl e
        | Inr None \<Rightarrow> Inl (RuntimeError (''Upload returned no metadata for '' @ filename))
        | Inr (Some result) \<Rightarrow> Inr (to_drive_item_info result))
   \<and> snd (upload_file self drive parent_folder_id filename content s)
       = snd (content_put (client self) drive (parent_folder_id @ '':/'' @ filename @ '':'')
                content s)
   \<and> fst (upload_file_by_path self drive remote_path content s)
       = (case fst (content_put (client self) drive (''root:/'' @ remote_path @ '':'')
                      content s) of
            Inl e \<Rightarrow> Inl e
          | Inr None \<Rightarrow> Inl (RuntimeError (''Upload returned no metadata for '' @ remote_path))
          | Inr (Some result) \<Rightarrow> Inr (to_drive_item_info result))
   \<and> snd (upload_file_by_path self drive remote_path content s)
       = snd (content_put (client self) drive (''root:/'' @ remote_path @ '':'') content s)
   \<and> snd (create_folder self drive parent_folder_id folder_name s)
       = snd (children_post (client self) drive parent_folder_id (new_folder folder_name) s)
   \<and> di_additional_data (new_folder folder_name) ''@microsoft.graph.conflictBehavior''
       = Some ''rename''"
  by (simp add: upload_file_def upload_file_by_path_def create_folder_def new_folder_def
      split: prod.split sum.split option.split)

subsection \<open>Download\<close>







lemmas tree_defs =
  tmp_out_def tree_fs_def tree_is_dir_def dir_at_def os_mkdir_def is_ENOENT_def
  mkdir_exist_ok_def tree_joinpath_def path_parts_def tree_write_bytes_def


text \<open>
  An item whose name is \<open>..\<close>, downloaded into the directory \<open>/tmp/out\<close>: the joined path
  resolves to \<open>/tmp\<close>, a directory, and the write fails.
\<close>

lemma download_file_dotdot:
  "fst (download_file facade tree_fs ''D1'' ''U'' [''tmp'', ''out''] (dotdot_remote, tmp_out))
     = Inl (OSError ''IsADirectoryError'')"
proof -
  have dir: "is_dir tree_fs [''tmp'', ''out''] tmp_out"
    by (simp add: tree_defs)
  have item: "get_item facade ''D1'' ''U'' dotdot_remote
       = (Inr (to_drive_item_info (empty_DriveItem\<lparr>di_id := Some ''U'', di_name := Some ''..''\<rparr>)),
          logged (ItemsGet ''D1'' ''U'') dotdot_remote)"
    by (simp add: get_item_def facade_def replacing_service_def dotdot_remote_def empty_remote_def)
  have join: "joinpath tree_fs [''tmp'', ''out'']
        (name_info (to_drive_item_info (empty_DriveItem\<lparr>di_id := Some ''U'', di_name := Some ''..''\<rparr>)))
       = [''tmp'', ''out'', ''..'']"
    by (simp add: tree_defs to_drive_item_info_def or_str_def empty_DriveItem_def)
  have fetch: "content_get (client facade) ''D1'' ''U'' (logged (ItemsGet ''D1'' ''U'') dotdot_remote)
       = (Inr (Some ''x''), logged (ContentGet ''D1'' ''U'') (logged (ItemsGet ''D1'' ''U'') dotdot_remote))"
    by (simp add: facade_def replacing_service_def dotdot_remote_def empty_remote_def logged_def)
  have mk: "mkdir_parents tree_fs (parent tree_fs [''tmp'', ''out'', ''..'']) tmp_out = (Inr (), tmp_out)"
    by (simp add: tree_defs)
  have wr: "write_bytes tree_fs [''tmp'', ''out'', ''..''] ''x'' tmp_out
       = (Inl (OSError ''IsADirectoryError''), tmp_out)"
    by (simp add: tree_defs)
  show ?thesis
    by (simp add: download_file_def dir item join fetch mk wr)
qed

subsection \<open>The client factory\<close>

lemma get_onedrive_client_hit:
  "cache p = Some a \<Longrightarrow> get_onedrive_client D G p = (Inr a, p)"
  by (simp add: get_onedrive_client_def)

lemma calls_hit: "cache p = Some a \<Longrightarrow> calls D G n p = (replicate n (Inr a), p)"
  by (induction n) (simp_all add: get_onedrive_client_hit)

lemma get_onedrive_client_miss_cases:
  assumes "cache p = None" and "heap p = []"
  shows "(\<exists>e. fst (get_onedrive_client D G p) = Inl e
            \<and> cache (snd (get_onedrive_client D G p)) = None
            \<and> heap (snd (get_onedrive_client D G p)) = [])
       \<or> (fst (get_onedrive_client D G p) = Inr 0
            \<and> cache (snd (get_onedrive_client D G p)) = Some 0
            \<and> length (heap (snd (get_onedrive_client D G p))) = 1)"
  using assms
  by (auto simp: get_onedrive_client_def init_def split: prod.splits sum.splits)

lemma calls_shape:
  assumes "cache p = None" and "heap p = []"
  shows "\<exists>k\<le>n. (\<forall>i<k. \<exists>e. fst (calls D G n p) ! i = Inl e)
            \<and> (\<forall>i. k \<le> i \<and> i < n \<longrightarrow> fst (calls D G n p) ! i = Inr 0)
            \<and> length (heap (snd (calls D G n p))) = (if k < n then 1 else 0)"
  using assms
proof (induction n arbitrary: p)
  case 0
  then show ?case by simp
next
  case (Suc n)
  obtain r p1 where g: "get_onedrive_client D G p = (r, p1)"
    by (cases "get_onedrive_client D G p")
  from get_onedrive_client_miss_cases [OF Suc.prems, of D G] g
  consider (fail) e where "r = Inl e" "cache p1 = None" "heap p1 = []"
    | (built) "r = Inr 0" "cache p1 = Some 0" "length (heap p1) = 1"
    by auto
  then show ?case
  proof cases
    case fail
    from Suc.IH [OF fail(2) fail(3)] obtain k where k: "k \<le> n"
      "\<forall>i<k. \<exists>e. fst (calls D G n p1) ! i = Inl e"
      "\<forall>i. k \<le> i \<and> i < n \<longrightarrow> fst (calls D G n p1) ! i = Inr 0"
      "length (heap (snd (calls D G n p1))) = (if k < n then 1 else 0)"
      by blast
    have c: "calls D G (Suc n) p = (r # fst (calls D G n p1), snd (calls D G n p1))"
      using g by (simp split: prod.splits)
    have "Suc k \<le> Suc n" using k(1) by simp
    moreover have "\<forall>i<Suc k. \<exists>e. fst (calls D G (Suc n) p) ! i = Inl e"
      using k(2) fail(1) c by (auto simp: nth_Cons split: nat.splits)
    moreover have "\<forall>i. Suc k \<le> i \<and> i < Suc n \<longrightarrow> fst (calls D G (Suc n) p) ! i = Inr 0"
      using k(3) c by (auto simp: nth_Cons split: nat.splits)
    moreover have "length (heap (snd (calls D G (Suc n) p))) = (if Suc k < Suc n then 1 else 0)"
      using k(4) c by simp
    ultimately show ?thesis by blast
  next
    case built
    from calls_hit [OF built(2)] have "calls D G n p1 = (replicate n (Inr 0), p1)" .
    with g built have c: "calls D G (Suc n) p = (replicate (Suc n) (Inr 0), p1)"
      by simp
    have "(0::nat) \<le> Suc n" by simp
    moreover have "\<forall>i<0::nat. \<exists>e. fst (calls D G (Suc n) p) ! i = Inl e" by simp
    moreover have "\<forall>i. 0 \<le> i \<and> i < Suc n \<longrightarrow> fst (calls D G (Suc n) p) ! i = Inr 0"
      using c by (metis fst_conv nth_replicate)
    moreover have "length (heap (snd (calls D G (Suc n) p))) = (if 0 < Suc n then 1 else 0)"
      using c built(3) by simp
    ultimately show ?thesis by blast
  qed
qed

text \<open>
  Calls one after the other. In a process that starts with nothing built and nothing
  memoised, over any \<open>n\<close> calls of the factory in a row: at most one facade object is ever
  built; and once a call has returned an instance, every later call returns that same
  instance, and exactly one facade object exists. (A call that raises, because the
  credential constructor raises, returns no instance and memoises nothing.)
\<close>

lemma sequential_calls_share_one_instance:
  assumes "cache p = None" and "heap p = []"
  shows "length (heap (snd (calls D G n p))) \<le> 1
       \<and> (\<forall>i j a. i \<le> j \<and> j < n \<and> fst (calls D G n p) ! i = Inr a
             \<longrightarrow> fst (calls D G n p) ! j = Inr a
               \<and> length (heap (snd (calls D G n p))) = 1)"
proof -
  from calls_shape [OF assms, of n D G] obtain k where k: "k \<le> n"
    "\<forall>i<k. \<exists>e. fst (calls D G n p) ! i = Inl e"
    "\<forall>i. k \<le> i \<and> i < n \<longrightarrow> fst (calls D G n p) ! i = Inr 0"
    "length (heap (snd (calls D G n p))) = (if k < n then 1 else 0)"
    by blast
  have "length (heap (snd (calls D G n p))) \<le> 1"
    using k(4) by simp
  moreover have "fst (calls D G n p) ! j = Inr a \<and> length (heap (snd (calls D G n p))) = 1"
    if "i \<le> j" "j < n" "fst (calls D G n p) ! i = Inr a" for i j a
  proof -
    have ki: "k \<le> i"
    proof (rule ccontr)
      assume "\<not> k \<le> i"
      then have "i < k" by simp
      with k(2) obtain e where "fst (calls D G n p) ! i = Inl e" by blast
      with that(3) show False by simp
    qed
    with that k(3) have "fst (calls D G n p) ! i = Inr 0" by simp
    with that(3) have a: "a = 0" by simp
    from ki that have "k \<le> j" "k < n" by simp_all
    with k(3) k(4) that(2) a show ?thesis by simp
  qed
  ultimately show ?thesis by blast
qed

lemma sequential_calls_example:
  "cache starting_process = None \<and> heap starting_process = []
   \<and> fst (calls flaky_credential sdk_client 4 starting_process)
       = [Inl (ValueError ''no credential available''), Inr 0, Inr 0, Inr 0]
   \<and> (1::nat) \<le> 3 \<and> (3::nat) < 4
   \<and> fst (calls flaky_credential sdk_client 4 starting_process) ! 1 = Inr 0
   \<and> fst (calls flaky_credential sdk_client 4 starting_process) ! 3 = Inr 0
   \<and> length (heap (snd (calls flaky_credential sdk_client 4 starting_process))) = 1"
proof -
  have h1: "cache starting_process = None"
    by (simp add: starting_process_def)
  have h2: "heap starting_process = []"
    by (simp add: starting_process_def)
  have rs: "fst (calls flaky_credential sdk_client 4 starting_process)
       = [Inl (ValueError ''no credential available''), Inr 0, Inr 0, Inr 0]"
    by code_simp
  have h3: "fst (calls flaky_credential sdk_client 4 starting_process) ! 1 = Inr 0"
    by (simp add: rs)
  have h4: "(1::nat) \<le> 3 \<and> (3::nat) < 4"
    by simp
  from sequential_calls_share_one_instance
    [OF h1 h2, where n = 4 and D = flaky_credential and G = sdk_client,
     THEN conjunct2, rule_format, of 1 3 0] h3 h4
  have c: "fst (calls flaky_credential sdk_client 4 starting_process) ! 3 = Inr 0
      \<and> length (heap (snd (calls flaky_credential sdk_client 4 starting_process))) = 1"
    by blast
  from h1 h2 rs h3 h4 c show ?thesis
    by blast
qed

text \<open>
  After the first call that returns an instance, the calls that follow return it and
  leave the process as that first call left it: nothing is built, and the credential
  constructor is not run again.
\<close>

lemma calls_after_first_success:
  assumes "cache p = None" and "fst (get_onedrive_client D G p) = Inr a"
  shows "calls D G (Suc n) p = (replicate (Suc n) (Inr a), snd (get_onedrive_client D G p))"
proof -
  obtain r p1 where g: "get_onedrive_client D G p = (r, p1)"
    by (cases "get_onedrive_client D G p")
  with assms(2) have r: "r = Inr a"
    by simp
  from assms g r have "cache p1 = Some a"
    by (auto simp: get_onedrive_client_def init_def split: prod.splits sum.splits)
  from calls_hit [OF this] have "calls D G n p1 = (replicate n (Inr a), p1)" .
  with g r show ?thesis
    by simp
qed

text \<open>
  One call run to its end, with no other call in progress, is \<open>get_onedrive_client\<close>.
\<close>

lemma run_one_call:
  "run D G [0, 0, 0] [Entered] p
     = ([Returned (fst (get_onedrive_client D G p))], snd (get_onedrive_client D G p))"
proof (cases "cache p")
  case (Some a)
  then show ?thesis
    by (simp add: step_def get_onedrive_client_def)
next
  case None
  obtain r w1 where d: "D (env p) = (r, w1)"
    by (cases "D (env p)")
  show ?thesis
  proof (cases r)
    case (Inl e)
    with None d show ?thesis
      by (simp add: step_def wrapped_def get_onedrive_client_def)
  next
    case (Inr credential)
    with None d show ?thesis
      by (simp add: step_def wrapped_def get_onedrive_client_def init_def)
  qed
qed

text \<open>
  Claim C10, at two calls that overlap at the start of a process: both look the key up
  before either has stored a result, both miss, and both run the decorated function. Two
  facade objects are built, and the two calls return different instances, \<open>0\<close> and \<open>1\<close>;
  the cache keeps the first. The same two calls one after the other build one facade and
  both return instance \<open>0\<close>.
\<close>

theorem get_onedrive_client_overlapping_calls:
  "fst (run flaky_credential sdk_client [0, 1, 0, 1, 0, 1] [Entered, Entered] ready_process)
     = [Returned (Inr 0), Returned (Inr 1)]
   \<and> length (heap (snd (run flaky_credential sdk_client [0, 1, 0, 1, 0, 1]
                          [Entered, Entered] ready_process))) = 2
   \<and> cache (snd (run flaky_credential sdk_client [0, 1, 0, 1, 0, 1]
                    [Entered, Entered] ready_process)) = Some 0
   \<and> fst (run flaky_credential sdk_client [0, 0, 0, 1, 1, 1] [Entered, Entered] ready_process)
       = [Returned (Inr 0), Returned (Inr 0)]
   \<and> length (heap (snd (run flaky_credential sdk_client [0, 0, 0, 1, 1, 1]
                          [Entered, Entered] ready_process))) = 1"
  by code_simp

end
